theory Spec2Isabelle
  imports Main "HOL-Library.Sublist" "HOL-Library.Multiset" "HOL-Library.Word"
begin

section \<open>Archive detection and tarball names of autobuild\<close>

text \<open>
  The development embeds two source files: \<^verbatim>\<open>autobuild/archive_utils.py\<close> (format
  detection, \<^verbatim>\<open>open_archive\<close>, \<^verbatim>\<open>ZstdTarFile\<close>) and the function
  \<^verbatim>\<open>split_tarname\<close> of \<^verbatim>\<open>autobuild/common.py\<close>.
\<close>

subsection \<open>Values, exceptions and the outside world\<close>

type_synonym path = string
type_synonym byte = "8 word"

text \<open>
  Every exception the embedded code can meet. The first four are what \<^verbatim>\<open>open\<close> and
  \<^verbatim>\<open>read\<close> raise, the next three come from \<^verbatim>\<open>tarfile\<close>, \<^verbatim>\<open>zipfile\<close> and \<^verbatim>\<open>pyzstd\<close>,
  \<^verbatim>\<open>ImportError\<close> is a failed \<^verbatim>\<open>from pyzstd import\<close>, \<^verbatim>\<open>AutobuildError\<close> carries its
  message and \<^verbatim>\<open>IndexError\<close> is what indexing an empty list raises.
\<close>

datatype exn =
    FileNotFoundError
  | PermissionError
  | IsADirectoryError
  | OSError
  | TarError
  | BadZipFile
  | ZstdError
  | ImportError
  | AutobuildError string
  | IndexError

text \<open>
  What the file system holds under a path: a file that \<^verbatim>\<open>open(filename, "rb")\<close> refuses
  with an exception, one that opens but whose \<^verbatim>\<open>read\<close> raises, or a file with contents.
\<close>

datatype node =
    Unopenable exn
  | Unreadable exn
  | Regular "byte list"

text \<open>
  The dictionary \<^verbatim>\<open>zstdoption\<close> of \<^verbatim>\<open>ZstdTarFile.__init__\<close>, with its three keys.
\<close>

record zstd_option =
  compressionLevel :: int
  nbWorkers :: nat
  checksumFlag :: int

text \<open>
  Calls that leave the program, in the order they are made. A call is recorded when it is
  made, whether it returns or raises.
\<close>

datatype event =
    FileOpen path
  | FileRead path nat
  | FileClose path
  | ZstdFile_new path string "zstd_option option"
  | ZstdFile_close path
  | TarFile_init path string
  | TarFile_close path
  | Tarfile_open path string
  | ZipFile_new path string

text \<open>
  The world the code runs in. \<open>disk\<close> is the file system. The fields ending in
  \<open>_raises\<close> say how each library call ends: \<open>None\<close> when it returns, \<open>Some e\<close> when it
  raises \<open>e\<close>. They are parameters: every theorem holds for all of them. \<open>cpu_count\<close> is
  \<^verbatim>\<open>multiprocessing.cpu_count()\<close>. Only \<open>trace\<close> is changed by the code.
\<close>

record world =
  disk :: "path \<Rightarrow> node"
  pyzstd_import_raises :: "exn option"
  ZstdFile_raises :: "path \<Rightarrow> string \<Rightarrow> exn option"
  ZstdFile_close_raises :: "path \<Rightarrow> exn option"
  TarFile_init_raises :: "path \<Rightarrow> string \<Rightarrow> exn option"
  TarFile_close_raises :: "path \<Rightarrow> exn option"
  tarfile_open_raises :: "path \<Rightarrow> string \<Rightarrow> exn option"
  ZipFile_raises :: "path \<Rightarrow> string \<Rightarrow> exn option"
  cpu_count :: nat
  trace :: "event list"

definition emit :: "event list \<Rightarrow> world \<Rightarrow> world" where
  "emit es w = w\<lparr>trace := trace w @ es\<rparr>"

subsection \<open>\<^verbatim>\<open>ArchiveType\<close> and the signature table\<close>

definition GZ :: string where "GZ = ''gz''"
definition BZ2 :: string where "BZ2 = ''bz2''"
definition ZIP :: string where "ZIP = ''zip''"
definition ZST :: string where "ZST = ''zst''"

text \<open>
  \<^verbatim>\<open>_ARCHIVE_MAGIC_NUMBERS\<close>: a dictionary literal, iterated in insertion order, hence an
  association list in the order of the source.
\<close>

definition ARCHIVE_MAGIC_NUMBERS :: "(byte list \<times> string) list" where
  "ARCHIVE_MAGIC_NUMBERS =
     [([0x1f, 0x8b, 0x08], GZ),
      ([0x42, 0x5a, 0x68], BZ2),
      ([0x50, 0x4b, 0x03, 0x04], ZIP),
      ([0x28, 0xb5, 0x2f, 0xfd], ZST)]"

text \<open>\<^verbatim>\<open>max(len(x) for x in _ARCHIVE_MAGIC_NUMBERS)\<close>: the keys of the dictionary.\<close>

definition ARCHIVE_MAGIC_NUMBERS_MAX :: nat where
  "ARCHIVE_MAGIC_NUMBERS_MAX = Max (set (map (\<lambda>(magic, f_type). length magic) ARCHIVE_MAGIC_NUMBERS))"

subsection \<open>Detection\<close>

text \<open>
  The \<^verbatim>\<open>for magic, f_type in ...items()\<close> loop of \<^verbatim>\<open>_archive_type_from_signature\<close>, over
  the entries still to visit; \<^verbatim>\<open>head.startswith(magic)\<close> is \<open>prefix magic head\<close>.
\<close>

fun signature_loop :: "(byte list \<times> string) list \<Rightarrow> byte list \<Rightarrow> string option" where
  "signature_loop [] head = None"
| "signature_loop ((magic, f_type) # rest) head =
     (if prefix magic head then Some f_type else signature_loop rest head)"

text \<open>
  \<^verbatim>\<open>_archive_type_from_signature\<close>. The \<^verbatim>\<open>with\<close> block closes the file on every way out
  of it, also when \<^verbatim>\<open>read\<close> raises or the loop returns. \<^verbatim>\<open>f.read(n)\<close> yields the first
  \<open>n\<close> bytes, fewer at the end of the file.
\<close>

definition archive_type_from_signature :: "world \<Rightarrow> path \<Rightarrow> (exn + string option) \<times> world" where
  "archive_type_from_signature w filename =
     (case disk w filename of
        Unopenable e \<Rightarrow> (Inl e, emit [FileOpen filename] w)
      | Unreadable e \<Rightarrow>
          (Inl e, emit [FileOpen filename, FileRead filename ARCHIVE_MAGIC_NUMBERS_MAX,
                        FileClose filename] w)
      | Regular content \<Rightarrow>
          (let head = take ARCHIVE_MAGIC_NUMBERS_MAX content
           in (Inr (signature_loop ARCHIVE_MAGIC_NUMBERS head),
               emit [FileOpen filename, FileRead filename ARCHIVE_MAGIC_NUMBERS_MAX,
                     FileClose filename] w)))"

text \<open>\<^verbatim>\<open>_archive_type_from_extension\<close>; \<^verbatim>\<open>filename.endswith(s)\<close> is \<open>suffix s filename\<close>.\<close>

definition archive_type_from_extension :: "path \<Rightarrow> string option" where
  "archive_type_from_extension filename =
     (if suffix ''.tar.gz'' filename then Some GZ
      else if suffix ''.tar.bz2'' filename then Some BZ2
      else if suffix ''.tar.zst'' filename then Some ZST
      else if suffix ''.zip'' filename then Some ZIP
      else None)"

text \<open>Python's truth value of \<^verbatim>\<open>None\<close> or a string: only a non-empty string is true.\<close>

definition truthy :: "string option \<Rightarrow> bool" where
  "truthy v = (case v of None \<Rightarrow> False | Some s \<Rightarrow> s \<noteq> [])"

definition detect_archive_type :: "world \<Rightarrow> path \<Rightarrow> (exn + string option) \<times> world" where
  "detect_archive_type w filename =
     (let f_type = archive_type_from_extension filename
      in if truthy f_type then (Inr f_type, w)
         else archive_type_from_signature w filename)"

subsection \<open>Opening an archive\<close>

text \<open>
  What \<^verbatim>\<open>open_archive\<close> returns: a \<^verbatim>\<open>ZstdTarFile\<close> (a tar reader whose \<^verbatim>\<open>fileobj\<close> is the
  zstd stream \<^verbatim>\<open>self.zstd_file\<close> over the named file), a \<^verbatim>\<open>zipfile.ZipFile\<close> or a
  \<^verbatim>\<open>tarfile.TarFile\<close>, each with the path and mode it was opened with.
\<close>

datatype archive =
    ZstdTarFile path string
  | ZipFile path string
  | TarFile path string

text \<open>
  \<^verbatim>\<open>ZstdTarFile.__init__(self, name, mode, level=level)\<close>. \<^verbatim>\<open>zstd_dict\<close> and the keyword
  arguments are passed through unchanged and are left out. The bare \<^verbatim>\<open>except:\<close> closes the
  stream and re-raises; when that \<^verbatim>\<open>close\<close> raises itself, its exception is the one that
  leaves the handler.
\<close>

definition ZstdTarFile_init :: "world \<Rightarrow> path \<Rightarrow> string \<Rightarrow> int \<Rightarrow> (exn + archive) \<times> world" where
  "ZstdTarFile_init w name mode level =
     (case pyzstd_import_raises w of
        Some e \<Rightarrow> (Inl e, w)
      | None \<Rightarrow>
          (let zstdoption =
                 (if mode \<noteq> ''r'' \<and> mode \<noteq> ''rb''
                  then Some \<lparr>compressionLevel = level, nbWorkers = cpu_count w, checksumFlag = 1\<rparr>
                  else None);
               w1 = emit [ZstdFile_new name mode zstdoption] w
           in case ZstdFile_raises w name mode of
                Some e \<Rightarrow> (Inl e, w1)
              | None \<Rightarrow>
                  (let w2 = emit [TarFile_init name mode] w1
                   in case TarFile_init_raises w name mode of
                        None \<Rightarrow> (Inr (ZstdTarFile name mode), w2)
                      | Some e \<Rightarrow>
                          (let w3 = emit [ZstdFile_close name] w2
                           in case ZstdFile_close_raises w name of
                                Some e' \<Rightarrow> (Inl e', w3)
                              | None \<Rightarrow> (Inl e, w3)))))"

text \<open>
  \<^verbatim>\<open>ZstdTarFile.close(self)\<close>, \<open>name\<close> being the file of \<^verbatim>\<open>self.zstd_file\<close>. The
  \<^verbatim>\<open>finally\<close> clause runs after \<^verbatim>\<open>super().close()\<close> however that ends; an exception raised
  inside the \<^verbatim>\<open>finally\<close> clause replaces the one in flight.
\<close>

definition ZstdTarFile_close :: "world \<Rightarrow> path \<Rightarrow> (exn + unit) \<times> world" where
  "ZstdTarFile_close w name =
     (let w1 = emit [TarFile_close name] w;
          pending = TarFile_close_raises w name;
          w2 = emit [ZstdFile_close name] w1
      in case ZstdFile_close_raises w name of
           Some e' \<Rightarrow> (Inl e', w2)
         | None \<Rightarrow> (case pending of Some e \<Rightarrow> (Inl e, w2) | None \<Rightarrow> (Inr (), w2)))"

text \<open>\<^verbatim>\<open>zipfile.ZipFile(filename, mode)\<close> and \<^verbatim>\<open>tarfile.open(filename, mode)\<close>.\<close>

definition zipfile_ZipFile :: "world \<Rightarrow> path \<Rightarrow> string \<Rightarrow> (exn + archive) \<times> world" where
  "zipfile_ZipFile w filename mode =
     (case ZipFile_raises w filename mode of
        Some e \<Rightarrow> (Inl e, emit [ZipFile_new filename mode] w)
      | None \<Rightarrow> (Inr (ZipFile filename mode), emit [ZipFile_new filename mode] w))"

definition tarfile_open :: "world \<Rightarrow> path \<Rightarrow> string \<Rightarrow> (exn + archive) \<times> world" where
  "tarfile_open w filename mode =
     (case tarfile_open_raises w filename mode of
        Some e \<Rightarrow> (Inl e, emit [Tarfile_open filename mode] w)
      | None \<Rightarrow> (Inr (TarFile filename mode), emit [Tarfile_open filename mode] w))"

text \<open>\<^verbatim>\<open>open_archive\<close>; \<^verbatim>\<open>ZstdTarFile(filename, "r")\<close> takes the default \<^verbatim>\<open>level=4\<close>.\<close>

definition open_archive :: "world \<Rightarrow> path \<Rightarrow> (exn + archive) \<times> world" where
  "open_archive w filename =
     (case detect_archive_type w filename of
        (Inl e, w') \<Rightarrow> (Inl e, w')
      | (Inr f_type, w') \<Rightarrow>
          (if f_type = Some ZST then ZstdTarFile_init w' filename ''r'' 4
           else if f_type = Some ZIP then zipfile_ZipFile w' filename ''r''
           else tarfile_open w' filename ''r''))"

subsection \<open>\<^verbatim>\<open>split_tarname\<close>\<close>

text \<open>\<^verbatim>\<open>s.rfind(c)\<close>: the highest index of \<open>c\<close> in \<open>s\<close>, or \<open>-1\<close>.\<close>

fun rfind :: "char \<Rightarrow> string \<Rightarrow> int" where
  "rfind c [] = - 1"
| "rfind c (x # xs) =
     (let r = rfind c xs in if 0 \<le> r then r + 1 else if x = c then 0 else - 1)"

text \<open>\<^verbatim>\<open>s.rstrip(c)\<close> for a single character \<open>c\<close>.\<close>

definition rstrip :: "char \<Rightarrow> string \<Rightarrow> string" where
  "rstrip c s = rev (dropWhile (\<lambda>x. x = c) (rev s))"

text \<open>
  \<^verbatim>\<open>os.path.split\<close> of \<^verbatim>\<open>posixpath\<close>:
  \<^verbatim>\<open>i = p.rfind('/') + 1; head, tail = p[:i], p[i:]\<close>, and the trailing slashes of \<^verbatim>\<open>head\<close>
  are stripped unless \<^verbatim>\<open>head\<close> is empty or all slashes.
\<close>

definition os_path_split :: "path \<Rightarrow> string \<times> string" where
  "os_path_split p =
     (let i = nat (rfind CHR ''/'' p + 1);
          head = take i p;
          tail = drop i p;
          head = (if head \<noteq> [] \<and> head \<noteq> replicate (length head) CHR ''/''
                  then rstrip CHR ''/'' head else head)
      in (head, tail))"

text \<open>
  \<^verbatim>\<open>s.split(c)\<close> with a separator: one piece more than there are separators, empty pieces
  kept, never an empty list.
\<close>

fun str_split :: "char \<Rightarrow> string \<Rightarrow> string list" where
  "str_split c [] = [[]]"
| "str_split c (x # xs) =
     (if x = c then [] # str_split c xs
      else (case str_split c xs of
              [] \<Rightarrow> [[x]]
            | piece # pieces \<Rightarrow> (x # piece) # pieces))"

text \<open>\<^verbatim>\<open>sep.join(xs)\<close>.\<close>

fun str_join :: "string \<Rightarrow> string list \<Rightarrow> string" where
  "str_join sep [] = []"
| "str_join sep [x] = x"
| "str_join sep (x # y # ys) = x @ sep @ str_join sep (y # ys)"

text \<open>
  Python slices. \<open>slice_index\<close> clamps a bound into \<open>0..n\<close>, a negative one counting from
  the end; \<open>slice i j xs\<close> is \<^verbatim>\<open>xs[i:j]\<close> and \<open>slice_assign i j ys xs\<close> is the list after
  \<^verbatim>\<open>xs[i:j] = ys\<close>.
\<close>

definition slice_index :: "int \<Rightarrow> nat \<Rightarrow> nat" where
  "slice_index i n = (if i < 0 then nat (max 0 (int n + i)) else min (nat i) n)"

definition slice :: "int \<Rightarrow> int \<Rightarrow> 'a list \<Rightarrow> 'a list" where
  "slice i j xs =
     (let n = length xs; a = slice_index i n; b = slice_index j n
      in take (b - a) (drop a xs))"

definition slice_assign :: "int \<Rightarrow> int \<Rightarrow> 'a list \<Rightarrow> 'a list \<Rightarrow> 'a list" where
  "slice_assign i j ys xs =
     (let n = length xs; a = slice_index i n; b = max a (slice_index j n)
      in take a xs @ ys @ drop b xs)"

text \<open>The message of the \<^verbatim>\<open>AutobuildError\<close>: the format string with \<^verbatim>\<open>filename\<close> filled in.\<close>

definition incompatible_name :: "string \<Rightarrow> string" where
  "incompatible_name filename =
     ''Incompatible archive name '' @ [CHR 0x27] @ filename @ [CHR 0x27] @ '' lacks some components''"

text \<open>
  \<^verbatim>\<open>split_tarname\<close>. \<^verbatim>\<open>fileparts[-1]\<close> and \<^verbatim>\<open>extparts[0]\<close> raise \<^verbatim>\<open>IndexError\<close> on an empty
  list, which is a branch here.
\<close>

definition split_tarname :: "path \<Rightarrow> exn + (string \<times> string list \<times> string)" where
  "split_tarname pathname =
     (let (dir, filename) = os_path_split pathname;
          fileparts = str_split CHR ''-'' filename
      in case rev fileparts of
           [] \<Rightarrow> Inl IndexError
         | lastpart # _ \<Rightarrow>
             (case str_split CHR ''.'' lastpart of
                [] \<Rightarrow> Inl IndexError
              | ext0 # extrest \<Rightarrow>
                  (let fileparts = fileparts[length fileparts - 1 := ext0];
                       extparts = [] # extrest;
                       ext = str_join ''.'' extparts;
                       fileparts =
                         (if length fileparts > 4
                          then slice_assign 1 (- 2) [str_join ''-'' (slice 1 (- 2) fileparts)] fileparts
                          else fileparts)
                   in if length fileparts < 4
                      then Inl (AutobuildError (incompatible_name filename))
                      else Inr (dir, fileparts, ext))))"

subsection \<open>Concrete worlds for the examples\<close>

text \<open>
  A world over a given file system in which every library call returns, four workers are
  reported and nothing has happened yet.
\<close>

definition quiet_world :: "(path \<Rightarrow> node) \<Rightarrow> world" where
  "quiet_world d =
     \<lparr>disk = d, pyzstd_import_raises = None, ZstdFile_raises = (\<lambda>_ _. None),
      ZstdFile_close_raises = (\<lambda>_. None), TarFile_init_raises = (\<lambda>_ _. None),
      TarFile_close_raises = (\<lambda>_. None), tarfile_open_raises = (\<lambda>_ _. None),
      ZipFile_raises = (\<lambda>_ _. None), cpu_count = 4, trace = []\<rparr>"

text \<open>File systems: every path a zip file, every path missing, every path empty.\<close>

definition zip_file :: "path \<Rightarrow> node" where
  "zip_file p = Regular [0x50, 0x4b, 0x03, 0x04, 0x14, 0x00]"

definition no_file :: "path \<Rightarrow> node" where
  "no_file p = Unopenable FileNotFoundError"

definition empty_file :: "path \<Rightarrow> node" where
  "empty_file p = Regular []"

text \<open>Every path a file that opens and whose \<^verbatim>\<open>read\<close> raises.\<close>

definition unreadable_file :: "path \<Rightarrow> node" where
  "unreadable_file p = Unreadable OSError"

text \<open>Every path a file that starts with the bzip2 signature.\<close>

definition bz2_file :: "path \<Rightarrow> node" where
  "bz2_file p = Regular [0x42, 0x5a, 0x68, 0x39, 0x31, 0x41]"

text \<open>
  Worlds over \<open>zip_file\<close> in which the two \<^verbatim>\<open>close\<close> calls of \<^verbatim>\<open>ZstdTarFile.close\<close> end as
  given, and one in which \<^verbatim>\<open>TarFile.__init__\<close> raises.
\<close>

definition close_fails :: "exn option \<Rightarrow> exn option \<Rightarrow> world" where
  "close_fails tar_exn zstd_exn =
     (quiet_world zip_file)\<lparr>TarFile_close_raises := (\<lambda>_. tar_exn),
                            ZstdFile_close_raises := (\<lambda>_. zstd_exn)\<rparr>"

definition tar_init_fails :: world where
  "tar_init_fails = (quiet_world zip_file)\<lparr>TarFile_init_raises := (\<lambda>_ _. Some TarError)\<rparr>"

section \<open>Properties of detection\<close>

lemma ARCHIVE_MAGIC_NUMBERS_MAX_eq: "ARCHIVE_MAGIC_NUMBERS_MAX = 4"
  by (simp add: ARCHIVE_MAGIC_NUMBERS_MAX_def ARCHIVE_MAGIC_NUMBERS_def)

lemma detect_without_suffix:
  "\<not> suffix ''.tar.gz'' f \<Longrightarrow> \<not> suffix ''.tar.bz2'' f \<Longrightarrow> \<not> suffix ''.tar.zst'' f \<Longrightarrow>
   \<not> suffix ''.zip'' f \<Longrightarrow> detect_archive_type w f = archive_type_from_signature w f"
  by (simp add: detect_archive_type_def archive_type_from_extension_def truthy_def)

text \<open>
  Claim C1. A filename ending in \<^verbatim>\<open>.tar.gz\<close>, \<^verbatim>\<open>.tar.bz2\<close>, \<^verbatim>\<open>.tar.zst\<close> or \<^verbatim>\<open>.zip\<close> is
  detected as \<^verbatim>\<open>gz\<close>, \<^verbatim>\<open>bz2\<close>, \<^verbatim>\<open>zst\<close> or \<^verbatim>\<open>zip\<close> respectively, whatever the file system
  holds under that name, and the world comes back unchanged: no file is opened or read,
  so the signature check is never reached.
\<close>

theorem suffix_detection_wins:
  "(suffix ''.tar.gz'' filename \<longrightarrow> detect_archive_type w filename = (Inr (Some GZ), w)) \<and>
   (suffix ''.tar.bz2'' filename \<longrightarrow> detect_archive_type w filename = (Inr (Some BZ2), w)) \<and>
   (suffix ''.tar.zst'' filename \<longrightarrow> detect_archive_type w filename = (Inr (Some ZST), w)) \<and>
   (suffix ''.zip'' filename \<longrightarrow> detect_archive_type w filename = (Inr (Some ZIP), w))"
  by (auto simp: detect_archive_type_def archive_type_from_extension_def truthy_def
      GZ_def BZ2_def ZST_def ZIP_def suffix_def)

text \<open>
  The four suffixes on a file system where every file starts with the zip signature: the
  name decides, and the world (its trace included) is the one passed in.
\<close>

theorem suffix_detection_wins_witness:
  "suffix ''.tar.gz'' ''pkg.tar.gz'' \<and>
   disk (quiet_world zip_file) ''pkg.tar.gz'' = Regular [0x50, 0x4b, 0x03, 0x04, 0x14, 0x00] \<and>
   signature_loop ARCHIVE_MAGIC_NUMBERS (take 4 [0x50, 0x4b, 0x03, 0x04, 0x14, 0x00]) = Some ''zip'' \<and>
   detect_archive_type (quiet_world zip_file) ''pkg.tar.gz'' = (Inr (Some ''gz''), quiet_world zip_file) \<and>
   suffix ''.tar.bz2'' ''pkg.tar.bz2'' \<and>
   detect_archive_type (quiet_world zip_file) ''pkg.tar.bz2'' = (Inr (Some ''bz2''), quiet_world zip_file) \<and>
   suffix ''.tar.zst'' ''pkg.tar.zst'' \<and>
   detect_archive_type (quiet_world zip_file) ''pkg.tar.zst'' = (Inr (Some ''zst''), quiet_world zip_file) \<and>
   suffix ''.zip'' ''pkg.zip'' \<and>
   detect_archive_type (quiet_world zip_file) ''pkg.zip'' = (Inr (Some ''zip''), quiet_world zip_file)"
proof -
  have s: "suffix ''.tar.gz'' ''pkg.tar.gz''" "suffix ''.tar.bz2'' ''pkg.tar.bz2''"
    "suffix ''.tar.zst'' ''pkg.tar.zst''" "suffix ''.zip'' ''pkg.zip''"
    by (simp_all add: suffix_to_prefix)
  have d: "disk (quiet_world zip_file) ''pkg.tar.gz'' = Regular [0x50, 0x4b, 0x03, 0x04, 0x14, 0x00]"
    by (simp add: quiet_world_def zip_file_def)
  have l: "signature_loop ARCHIVE_MAGIC_NUMBERS (take 4 [0x50, 0x4b, 0x03, 0x04, 0x14, 0x00]) = Some ''zip''"
    by (simp add: ARCHIVE_MAGIC_NUMBERS_def ZIP_def)
  show ?thesis
    using s d l
      suffix_detection_wins [of "''pkg.tar.gz''" "quiet_world zip_file"]
      suffix_detection_wins [of "''pkg.tar.bz2''" "quiet_world zip_file"]
      suffix_detection_wins [of "''pkg.tar.zst''" "quiet_world zip_file"]
      suffix_detection_wins [of "''pkg.zip''" "quiet_world zip_file"]
    by (simp add: GZ_def BZ2_def ZST_def ZIP_def)
qed

lemma signature_loop_find:
  "signature_loop tbl head = map_option snd (find (\<lambda>(magic, f_type). prefix magic head) tbl)"
  by (induction tbl) auto

lemma payload_has_no_suffix:
  "\<not> suffix ''.tar.gz'' ''payload''" "\<not> suffix ''.tar.bz2'' ''payload''"
  "\<not> suffix ''.tar.zst'' ''payload''" "\<not> suffix ''.zip'' ''payload''"
  by (simp_all add: suffix_to_prefix)

text \<open>
  Claim C2. For a filename with none of the four suffixes, naming a file that opens and
  reads, \<^verbatim>\<open>detect_archive_type\<close> opens the file, asks for 4 bytes (the length of the longest
  signature), closes it, and returns the format of the first entry of the table, in the
  order \<^verbatim>\<open>gz\<close>, \<^verbatim>\<open>bz2\<close>, \<^verbatim>\<open>zip\<close>, \<^verbatim>\<open>zst\<close>, whose signature is a prefix of the bytes read;
  it returns \<^verbatim>\<open>None\<close> when no signature is such a prefix, in particular for an empty file.
\<close>

theorem signature_detection_first_match:
  assumes "\<not> suffix ''.tar.gz'' filename" and "\<not> suffix ''.tar.bz2'' filename"
    and "\<not> suffix ''.tar.zst'' filename" and "\<not> suffix ''.zip'' filename"
    and "disk w filename = Regular content"
  shows "detect_archive_type w filename =
           (Inr (map_option snd
                   (find (\<lambda>(magic, f_type). prefix magic (take 4 content)) ARCHIVE_MAGIC_NUMBERS)),
            emit [FileOpen filename, FileRead filename 4, FileClose filename] w) \<and>
         ARCHIVE_MAGIC_NUMBERS_MAX = 4 \<and>
         map snd ARCHIVE_MAGIC_NUMBERS = [GZ, BZ2, ZIP, ZST] \<and>
         ((\<forall>(magic, f_type) \<in> set ARCHIVE_MAGIC_NUMBERS. \<not> prefix magic (take 4 content)) \<longrightarrow>
            fst (detect_archive_type w filename) = Inr None) \<and>
         (content = [] \<longrightarrow> fst (detect_archive_type w filename) = Inr None)"
proof -
  have eq: "detect_archive_type w filename = archive_type_from_signature w filename"
    using assms by (simp add: detect_without_suffix)
  have r: "archive_type_from_signature w filename =
      (Inr (signature_loop ARCHIVE_MAGIC_NUMBERS (take 4 content)),
       emit [FileOpen filename, FileRead filename 4, FileClose filename] w)"
    using assms(5) by (simp add: archive_type_from_signature_def ARCHIVE_MAGIC_NUMBERS_MAX_eq)
  have none: "(\<forall>(magic, f_type) \<in> set tbl. \<not> prefix magic hd') \<Longrightarrow> signature_loop tbl hd' = None"
    for tbl hd'
    by (induction tbl) auto
  have empty: "signature_loop ARCHIVE_MAGIC_NUMBERS [] = None"
    by (simp add: ARCHIVE_MAGIC_NUMBERS_def)
  have order: "map snd ARCHIVE_MAGIC_NUMBERS = [GZ, BZ2, ZIP, ZST]"
    by (simp add: ARCHIVE_MAGIC_NUMBERS_def)
  show ?thesis
    unfolding eq r using none [of ARCHIVE_MAGIC_NUMBERS "take 4 content"] empty order
    by (simp add: signature_loop_find ARCHIVE_MAGIC_NUMBERS_MAX_eq)
qed

text \<open>
  A file named \<^verbatim>\<open>payload\<close> that starts with the bzip2 signature is detected as \<^verbatim>\<open>bz2\<close>
  after one open, one read of 4 bytes and one close; an empty file gives \<^verbatim>\<open>None\<close>.
\<close>

theorem signature_detection_first_match_witness:
  "fst (detect_archive_type (quiet_world bz2_file) ''payload'') = Inr (Some ''bz2'') \<and>
   trace (snd (detect_archive_type (quiet_world bz2_file) ''payload'')) =
     [FileOpen ''payload'', FileRead ''payload'' 4, FileClose ''payload''] \<and>
   fst (detect_archive_type (quiet_world empty_file) ''payload'') = Inr None"
proof -
  have b: "disk (quiet_world bz2_file) ''payload'' = Regular [0x42, 0x5a, 0x68, 0x39, 0x31, 0x41]"
    by (simp add: quiet_world_def bz2_file_def)
  have e: "disk (quiet_world empty_file) ''payload'' = Regular []"
    by (simp add: quiet_world_def empty_file_def)
  have f: "map_option snd (find (\<lambda>(magic, f_type). prefix magic (take 4 [0x42, 0x5a, 0x68, 0x39, 0x31, 0x41]))
       ARCHIVE_MAGIC_NUMBERS) = Some ''bz2''"
    by (simp add: ARCHIVE_MAGIC_NUMBERS_def BZ2_def)
  have t: "trace (emit es (quiet_world d)) = es" for es d
    by (simp add: emit_def quiet_world_def)
  note r1 = signature_detection_first_match [OF payload_has_no_suffix b, THEN conjunct1]
  note r2 = signature_detection_first_match [OF payload_has_no_suffix e, THEN conjunct2, THEN conjunct2, THEN conjunct2, THEN conjunct2]
  have "fst (detect_archive_type (quiet_world bz2_file) ''payload'') = Inr (Some ''bz2'')"
    by (simp only: r1 f fst_conv)
  moreover have "trace (snd (detect_archive_type (quiet_world bz2_file) ''payload'')) =
     [FileOpen ''payload'', FileRead ''payload'' 4, FileClose ''payload'']"
    by (simp only: r1 t snd_conv)
  ultimately show ?thesis
    using r2 by simp
qed

section \<open>The signature table\<close>

lemma magic_prefixes_disjoint:
  "(m1, t1) \<in> set ARCHIVE_MAGIC_NUMBERS \<Longrightarrow> (m2, t2) \<in> set ARCHIVE_MAGIC_NUMBERS \<Longrightarrow>
   prefix m1 bs \<Longrightarrow> prefix m2 bs \<Longrightarrow> m1 = m2 \<and> t1 = t2"
  by (cases bs) (auto simp: ARCHIVE_MAGIC_NUMBERS_def prefix_Cons)

lemma signature_loop_Some_iff:
  assumes "\<And>m1 t1 m2 t2. (m1, t1) \<in> set tbl \<Longrightarrow> (m2, t2) \<in> set tbl \<Longrightarrow>
             prefix m1 head \<Longrightarrow> prefix m2 head \<Longrightarrow> t1 = t2"
  shows "signature_loop tbl head = Some t \<longleftrightarrow> (\<exists>m. (m, t) \<in> set tbl \<and> prefix m head)"
  using assms
proof (induction tbl)
  case Nil
  then show ?case by simp
next
  case (Cons a tbl)
  obtain m0 t0 where a: "a = (m0, t0)" by (cases a)
  show ?case
  proof (cases "prefix m0 head")
    case True
    then show ?thesis using Cons.prems a by auto
  next
    case False
    have "signature_loop tbl head = Some t \<longleftrightarrow> (\<exists>m. (m, t) \<in> set tbl \<and> prefix m head)"
      by (rule Cons.IH) (use Cons.prems in auto)
    then show ?thesis using False a by auto
  qed
qed

lemma signature_loop_order_free:
  assumes "set tbl = set ARCHIVE_MAGIC_NUMBERS"
  shows "signature_loop tbl head = signature_loop ARCHIVE_MAGIC_NUMBERS head"
proof -
  have a: "signature_loop ARCHIVE_MAGIC_NUMBERS head = Some t \<longleftrightarrow>
      (\<exists>m. (m, t) \<in> set ARCHIVE_MAGIC_NUMBERS \<and> prefix m head)" for t
    by (rule signature_loop_Some_iff) (rule magic_prefixes_disjoint [THEN conjunct2])
  have b: "signature_loop tbl head = Some t \<longleftrightarrow>
      (\<exists>m. (m, t) \<in> set ARCHIVE_MAGIC_NUMBERS \<and> prefix m head)" for t
    unfolding assms [symmetric]
    by (rule signature_loop_Some_iff) (unfold assms, rule magic_prefixes_disjoint [THEN conjunct2])
  have eq: "signature_loop tbl head = Some t \<longleftrightarrow> signature_loop ARCHIVE_MAGIC_NUMBERS head = Some t" for t
    by (simp only: a b)
  show ?thesis
  proof (cases "signature_loop ARCHIVE_MAGIC_NUMBERS head")
    case None
    have "signature_loop tbl head = None"
    proof (cases "signature_loop tbl head")
      case (Some a)
      then have "signature_loop ARCHIVE_MAGIC_NUMBERS head = Some a" by (simp only: eq)
      with None show ?thesis by simp
    qed simp
    with None show ?thesis by simp
  next
    case (Some t)
    then have "signature_loop tbl head = Some t" by (simp only: eq)
    with Some show ?thesis by simp
  qed
qed

text \<open>
  Claim C9. The signature table is unambiguous: no registered signature is a prefix of
  another entry's, no byte sequence has two entries' signatures as prefixes, and so the
  loop over the table returns the same format for every reordering of the table.
\<close>

theorem signature_table_unambiguous:
  "(\<forall>(m1, t1) \<in> set ARCHIVE_MAGIC_NUMBERS. \<forall>(m2, t2) \<in> set ARCHIVE_MAGIC_NUMBERS.
      prefix m1 m2 \<longrightarrow> (m1, t1) = (m2, t2)) \<and>
   (\<forall>(m1, t1) \<in> set ARCHIVE_MAGIC_NUMBERS. \<forall>(m2, t2) \<in> set ARCHIVE_MAGIC_NUMBERS.
      prefix m1 bs \<and> prefix m2 bs \<longrightarrow> (m1, t1) = (m2, t2)) \<and>
   (mset tbl = mset ARCHIVE_MAGIC_NUMBERS \<longrightarrow>
      signature_loop tbl bs = signature_loop ARCHIVE_MAGIC_NUMBERS bs)"
proof (intro conjI)
  show "\<forall>(m1, t1) \<in> set ARCHIVE_MAGIC_NUMBERS. \<forall>(m2, t2) \<in> set ARCHIVE_MAGIC_NUMBERS.
      prefix m1 m2 \<longrightarrow> (m1, t1) = (m2, t2)"
  proof clarify
    fix m1 t1 m2 t2
    assume "(m1, t1) \<in> set ARCHIVE_MAGIC_NUMBERS" "(m2, t2) \<in> set ARCHIVE_MAGIC_NUMBERS"
      "prefix m1 m2"
    moreover have "prefix m2 m2" by simp
    ultimately show "m1 = m2 \<and> t1 = t2" by (rule magic_prefixes_disjoint)
  qed
  show "\<forall>(m1, t1) \<in> set ARCHIVE_MAGIC_NUMBERS. \<forall>(m2, t2) \<in> set ARCHIVE_MAGIC_NUMBERS.
      prefix m1 bs \<and> prefix m2 bs \<longrightarrow> (m1, t1) = (m2, t2)"
  proof clarify
    fix m1 t1 m2 t2
    assume "(m1, t1) \<in> set ARCHIVE_MAGIC_NUMBERS" "(m2, t2) \<in> set ARCHIVE_MAGIC_NUMBERS"
      "prefix m1 bs" "prefix m2 bs"
    then show "m1 = m2 \<and> t1 = t2" by (rule magic_prefixes_disjoint)
  qed
  show "mset tbl = mset ARCHIVE_MAGIC_NUMBERS \<longrightarrow>
      signature_loop tbl bs = signature_loop ARCHIVE_MAGIC_NUMBERS bs"
  proof
    assume "mset tbl = mset ARCHIVE_MAGIC_NUMBERS"
    then have "set tbl = set ARCHIVE_MAGIC_NUMBERS" by (rule mset_eq_setD)
    then show "signature_loop tbl bs = signature_loop ARCHIVE_MAGIC_NUMBERS bs"
      by (rule signature_loop_order_free)
  qed
qed

text \<open>
  The table read backwards detects the zstd signature as the table itself does, and the
  zip signature, another entry, is no prefix of those bytes.
\<close>

theorem signature_table_unambiguous_witness:
  "mset (rev ARCHIVE_MAGIC_NUMBERS) = mset ARCHIVE_MAGIC_NUMBERS \<and>
   signature_loop (rev ARCHIVE_MAGIC_NUMBERS) [0x28, 0xb5, 0x2f, 0xfd] = Some ''zst'' \<and>
   signature_loop ARCHIVE_MAGIC_NUMBERS [0x28, 0xb5, 0x2f, 0xfd] = Some ''zst'' \<and>
   ([0x28, 0xb5, 0x2f, 0xfd], ''zst'') \<in> set ARCHIVE_MAGIC_NUMBERS \<and>
   ([0x50, 0x4b, 0x03, 0x04], ''zip'') \<in> set ARCHIVE_MAGIC_NUMBERS \<and>
   prefix [0x28, 0xb5, 0x2f, 0xfd] [0x28, 0xb5, 0x2f, 0xfd :: byte] \<and>
   \<not> prefix [0x50, 0x4b, 0x03, 0x04] [0x28, 0xb5, 0x2f, 0xfd :: byte]"
proof -
  have z: "signature_loop ARCHIVE_MAGIC_NUMBERS [0x28, 0xb5, 0x2f, 0xfd] = Some ''zst''"
    by (simp add: ARCHIVE_MAGIC_NUMBERS_def ZST_def)
  have m: "([0x28, 0xb5, 0x2f, 0xfd], ''zst'') \<in> set ARCHIVE_MAGIC_NUMBERS"
    "([0x50, 0x4b, 0x03, 0x04], ''zip'') \<in> set ARCHIVE_MAGIC_NUMBERS"
    by (simp_all add: ARCHIVE_MAGIC_NUMBERS_def ZST_def ZIP_def)
  have p: "prefix [0x28, 0xb5, 0x2f, 0xfd] [0x28, 0xb5, 0x2f, 0xfd :: byte]"
    "\<not> prefix [0x50, 0x4b, 0x03, 0x04] [0x28, 0xb5, 0x2f, 0xfd :: byte]"
    by simp_all
  have r: "mset (rev ARCHIVE_MAGIC_NUMBERS) = mset ARCHIVE_MAGIC_NUMBERS"
    by simp
  note i = signature_table_unambiguous [of "[0x28, 0xb5, 0x2f, 0xfd]" "rev ARCHIVE_MAGIC_NUMBERS",
      THEN conjunct2, THEN conjunct2, rule_format, OF r]
  have "signature_loop (rev ARCHIVE_MAGIC_NUMBERS) [0x28, 0xb5, 0x2f, 0xfd] = Some ''zst''"
    by (simp only: i z)
  then show ?thesis
    using z m p r by simp
qed

section \<open>I/O errors of detection\<close>

text \<open>
  Claim C10. For a filename with none of the four suffixes the first thing
  \<^verbatim>\<open>detect_archive_type\<close> does is to open the file. When \<^verbatim>\<open>open\<close> raises (a missing file, a
  file that may not be opened), that exception is what the call raises; when the file opens
  and \<^verbatim>\<open>read\<close> raises (an unreadable file), that exception is what the call raises, after
  the file has been closed. So a result, \<^verbatim>\<open>None\<close> included, is returned only for a file that
  opens and reads. For a filename with one of the suffixes the call returns an identifier
  and leaves the world untouched, whatever the file system holds under the name, a missing
  file included.
\<close>

theorem detection_io_error:
  "(\<not> suffix ''.tar.gz'' filename \<and> \<not> suffix ''.tar.bz2'' filename \<and>
    \<not> suffix ''.tar.zst'' filename \<and> \<not> suffix ''.zip'' filename \<longrightarrow>
      prefix (trace w @ [FileOpen filename]) (trace (snd (detect_archive_type w filename))) \<and>
      (\<forall>e. disk w filename = Unopenable e \<longrightarrow>
         detect_archive_type w filename = (Inl e, emit [FileOpen filename] w)) \<and>
      (\<forall>e. disk w filename = Unreadable e \<longrightarrow>
         detect_archive_type w filename =
           (Inl e, emit [FileOpen filename, FileRead filename 4, FileClose filename] w)) \<and>
      (\<forall>r. fst (detect_archive_type w filename) = Inr r \<longrightarrow>
         (\<exists>content. disk w filename = Regular content))) \<and>
   (suffix ''.tar.gz'' filename \<or> suffix ''.tar.bz2'' filename \<or>
    suffix ''.tar.zst'' filename \<or> suffix ''.zip'' filename \<longrightarrow>
      (\<exists>t. detect_archive_type w filename = (Inr (Some t), w)))"
proof (intro conjI impI allI)
  assume a: "\<not> suffix ''.tar.gz'' filename \<and> \<not> suffix ''.tar.bz2'' filename \<and>
    \<not> suffix ''.tar.zst'' filename \<and> \<not> suffix ''.zip'' filename"
  then have eq: "detect_archive_type w filename = archive_type_from_signature w filename"
    by (simp add: detect_without_suffix)
  show "prefix (trace w @ [FileOpen filename]) (trace (snd (detect_archive_type w filename)))"
    unfolding eq by (cases "disk w filename") (simp_all add: archive_type_from_signature_def emit_def)
  show "detect_archive_type w filename = (Inl e, emit [FileOpen filename] w)"
    if "disk w filename = Unopenable e" for e
    unfolding eq using that by (simp add: archive_type_from_signature_def)
  show "detect_archive_type w filename =
           (Inl e, emit [FileOpen filename, FileRead filename 4, FileClose filename] w)"
    if "disk w filename = Unreadable e" for e
    unfolding eq using that
    by (simp add: archive_type_from_signature_def ARCHIVE_MAGIC_NUMBERS_MAX_eq)
  show "\<exists>content. disk w filename = Regular content"
    if "fst (detect_archive_type w filename) = Inr r" for r
    using that unfolding eq
    by (cases "disk w filename") (simp_all add: archive_type_from_signature_def)
next
  assume "suffix ''.tar.gz'' filename \<or> suffix ''.tar.bz2'' filename \<or>
    suffix ''.tar.zst'' filename \<or> suffix ''.zip'' filename"
  then show "\<exists>t. detect_archive_type w filename = (Inr (Some t), w)"
    by (auto simp: detect_archive_type_def archive_type_from_extension_def truthy_def
      GZ_def BZ2_def ZST_def ZIP_def)
qed

text \<open>
  On a file system without any file, \<^verbatim>\<open>payload\<close> raises \<^verbatim>\<open>FileNotFoundError\<close> after one
  attempt to open it; on one whose files open and fail to read it raises \<^verbatim>\<open>OSError\<close> after
  open, read and close; \<^verbatim>\<open>payload.tar.zst\<close> is detected as \<^verbatim>\<open>zst\<close> with no call made.
\<close>

theorem detection_io_error_witness:
  "disk (quiet_world no_file) ''payload'' = Unopenable FileNotFoundError \<and>
   fst (detect_archive_type (quiet_world no_file) ''payload'') = Inl FileNotFoundError \<and>
   trace (snd (detect_archive_type (quiet_world no_file) ''payload'')) = [FileOpen ''payload''] \<and>
   disk (quiet_world unreadable_file) ''payload'' = Unreadable OSError \<and>
   fst (detect_archive_type (quiet_world unreadable_file) ''payload'') = Inl OSError \<and>
   trace (snd (detect_archive_type (quiet_world unreadable_file) ''payload'')) =
     [FileOpen ''payload'', FileRead ''payload'' 4, FileClose ''payload''] \<and>
   disk (quiet_world no_file) ''payload.tar.zst'' = Unopenable FileNotFoundError \<and>
   suffix ''.tar.zst'' ''payload.tar.zst'' \<and>
   detect_archive_type (quiet_world no_file) ''payload.tar.zst'' =
     (Inr (Some ''zst''), quiet_world no_file)"
proof -
  have d: "disk (quiet_world no_file) p = Unopenable FileNotFoundError" for p
    by (simp add: quiet_world_def no_file_def)
  have u: "disk (quiet_world unreadable_file) ''payload'' = Unreadable OSError"
    by (simp add: quiet_world_def unreadable_file_def)
  have t: "trace (emit es (quiet_world f)) = es" for es f
    by (simp add: emit_def quiet_world_def)
  have s: "suffix ''.tar.zst'' ''payload.tar.zst''"
    by (simp add: suffix_to_prefix)
  have z: "archive_type_from_extension ''payload.tar.zst'' = Some ''zst''"
    by (simp add: archive_type_from_extension_def suffix_to_prefix ZST_def)
  have "\<exists>t. detect_archive_type (quiet_world no_file) ''payload.tar.zst'' = (Inr (Some t), quiet_world no_file)"
    using detection_io_error [of "''payload.tar.zst''" "quiet_world no_file"] s by simp
  then have r: "detect_archive_type (quiet_world no_file) ''payload.tar.zst'' =
     (Inr (Some ''zst''), quiet_world no_file)"
    using z by (auto simp: detect_archive_type_def truthy_def)
  have n: "detect_archive_type (quiet_world no_file) ''payload'' =
      (Inl FileNotFoundError, emit [FileOpen ''payload''] (quiet_world no_file))"
    using detection_io_error [of "''payload''" "quiet_world no_file"] payload_has_no_suffix d by simp
  have m: "detect_archive_type (quiet_world unreadable_file) ''payload'' =
      (Inl OSError, emit [FileOpen ''payload'', FileRead ''payload'' 4, FileClose ''payload'']
         (quiet_world unreadable_file))"
    using detection_io_error [of "''payload''" "quiet_world unreadable_file"] payload_has_no_suffix u by simp
  show ?thesis
    by (simp add: n m t d u s r)
qed

section \<open>Properties of \<^verbatim>\<open>open_archive\<close>\<close>

lemma detect_keeps_world:
  "\<exists>es. snd (detect_archive_type w filename) = emit es w"
proof (cases "truthy (archive_type_from_extension filename)")
  case True
  then have "snd (detect_archive_type w filename) = emit [] w"
    by (simp add: detect_archive_type_def emit_def)
  then show ?thesis ..
next
  case False
  then show ?thesis
    by (cases "disk w filename") (auto simp: detect_archive_type_def archive_type_from_signature_def)
qed

text \<open>
  Claim C3. \<^verbatim>\<open>open_archive\<close> dispatches on the detected format. For \<^verbatim>\<open>zst\<close> it constructs a
  \<^verbatim>\<open>ZstdTarFile\<close> in mode \<^verbatim>\<open>r\<close>, which, when the library calls return, is a tar reader over
  a zstd stream opened without compression options. For \<^verbatim>\<open>zip\<close> it constructs a
  \<^verbatim>\<open>zipfile.ZipFile\<close>. For every other result, \<^verbatim>\<open>gz\<close>, \<^verbatim>\<open>bz2\<close> and \<^verbatim>\<open>None\<close> included, it
  calls \<^verbatim>\<open>tarfile.open\<close> on the path, so it returns a tar reader whenever that call
  returns: an unrecognized format alone is no failure.
\<close>

theorem open_archive_dispatch:
  assumes "detect_archive_type w filename = (Inr f_type, w')"
  shows "(f_type = Some ZST \<longrightarrow>
            open_archive w filename = ZstdTarFile_init w' filename ''r'' 4 \<and>
            (pyzstd_import_raises w = None \<and> ZstdFile_raises w filename ''r'' = None \<and>
             TarFile_init_raises w filename ''r'' = None \<longrightarrow>
               open_archive w filename =
                 (Inr (ZstdTarFile filename ''r''),
                  emit [ZstdFile_new filename ''r'' None, TarFile_init filename ''r''] w'))) \<and>
         (f_type = Some ZIP \<longrightarrow>
            open_archive w filename = zipfile_ZipFile w' filename ''r'' \<and>
            (ZipFile_raises w filename ''r'' = None \<longrightarrow>
               open_archive w filename =
                 (Inr (ZipFile filename ''r''), emit [ZipFile_new filename ''r''] w'))) \<and>
         (f_type = Some GZ \<or> f_type = Some BZ2 \<or> f_type = None \<or>
          (f_type \<noteq> Some ZST \<and> f_type \<noteq> Some ZIP) \<longrightarrow>
            open_archive w filename = tarfile_open w' filename ''r'' \<and>
            (tarfile_open_raises w filename ''r'' = None \<longrightarrow>
               open_archive w filename =
                 (Inr (TarFile filename ''r''), emit [Tarfile_open filename ''r''] w')))"
proof -
  obtain es where "snd (detect_archive_type w filename) = emit es w"
    using detect_keeps_world by blast
  then have w': "w' = emit es w" using assms by simp
  have ne: "ZST \<noteq> ZIP" "GZ \<noteq> ZST" "GZ \<noteq> ZIP" "BZ2 \<noteq> ZST" "BZ2 \<noteq> ZIP"
    by (simp_all add: GZ_def BZ2_def ZST_def ZIP_def)
  have z: "f_type = Some ZST \<Longrightarrow> open_archive w filename = ZstdTarFile_init w' filename ''r'' 4"
    using assms by (simp add: open_archive_def)
  have zi: "f_type = Some ZIP \<Longrightarrow> open_archive w filename = zipfile_ZipFile w' filename ''r''"
    using assms ne by (simp add: open_archive_def)
  have t: "f_type \<noteq> Some ZST \<Longrightarrow> f_type \<noteq> Some ZIP \<Longrightarrow>
      open_archive w filename = tarfile_open w' filename ''r''"
    using assms by (simp add: open_archive_def)
  have t': "f_type = Some GZ \<or> f_type = Some BZ2 \<or> f_type = None \<or>
          (f_type \<noteq> Some ZST \<and> f_type \<noteq> Some ZIP) \<Longrightarrow> f_type \<noteq> Some ZST \<and> f_type \<noteq> Some ZIP"
    using ne by auto
  have zs: "pyzstd_import_raises w = None \<Longrightarrow> ZstdFile_raises w filename ''r'' = None \<Longrightarrow>
             TarFile_init_raises w filename ''r'' = None \<Longrightarrow>
             ZstdTarFile_init w' filename ''r'' 4 = (Inr (ZstdTarFile filename ''r''),
                  emit [ZstdFile_new filename ''r'' None, TarFile_init filename ''r''] w')"
    by (simp add: ZstdTarFile_init_def w' emit_def)
  have zis: "ZipFile_raises w filename ''r'' = None \<Longrightarrow>
       zipfile_ZipFile w' filename ''r'' = (Inr (ZipFile filename ''r''), emit [ZipFile_new filename ''r''] w')"
    by (simp add: zipfile_ZipFile_def w' emit_def)
  have ts: "tarfile_open_raises w filename ''r'' = None \<Longrightarrow>
       tarfile_open w' filename ''r'' = (Inr (TarFile filename ''r''), emit [Tarfile_open filename ''r''] w')"
    by (simp add: tarfile_open_def w' emit_def)
  show ?thesis
    using z zi t t' zs zis ts by metis
qed

text \<open>
  On a file system of empty files: a name without suffix (detected as \<^verbatim>\<open>None\<close> after one
  read) and a \<^verbatim>\<open>.tar.gz\<close> name open as tar readers, a \<^verbatim>\<open>.tar.zst\<close> name as a
  \<^verbatim>\<open>ZstdTarFile\<close>, a \<^verbatim>\<open>.zip\<close> name as a zip reader.
\<close>

theorem open_archive_dispatch_witness:
  "open_archive (quiet_world empty_file) ''payload'' =
     (Inr (TarFile ''payload'' ''r''),
      emit [FileOpen ''payload'', FileRead ''payload'' 4, FileClose ''payload'',
            Tarfile_open ''payload'' ''r''] (quiet_world empty_file)) \<and>
   open_archive (quiet_world empty_file) ''pkg.tar.zst'' =
     (Inr (ZstdTarFile ''pkg.tar.zst'' ''r''),
      emit [ZstdFile_new ''pkg.tar.zst'' ''r'' None, TarFile_init ''pkg.tar.zst'' ''r'']
        (quiet_world empty_file)) \<and>
   open_archive (quiet_world empty_file) ''pkg.zip'' =
     (Inr (ZipFile ''pkg.zip'' ''r''), emit [ZipFile_new ''pkg.zip'' ''r''] (quiet_world empty_file)) \<and>
   open_archive (quiet_world empty_file) ''pkg.tar.gz'' =
     (Inr (TarFile ''pkg.tar.gz'' ''r''), emit [Tarfile_open ''pkg.tar.gz'' ''r''] (quiet_world empty_file))"
proof -
  let ?w = "quiet_world empty_file"
  have q: "pyzstd_import_raises ?w = None" "ZstdFile_raises ?w f m = None"
    "TarFile_init_raises ?w f m = None" "ZipFile_raises ?w f m = None"
    "tarfile_open_raises ?w f m = None" for f m
    by (simp_all add: quiet_world_def)
  have d1: "detect_archive_type ?w ''payload'' =
      (Inr None, emit [FileOpen ''payload'', FileRead ''payload'' 4, FileClose ''payload''] ?w)"
    by (simp add: detect_without_suffix payload_has_no_suffix archive_type_from_signature_def
        ARCHIVE_MAGIC_NUMBERS_MAX_eq quiet_world_def empty_file_def)
      (simp add: ARCHIVE_MAGIC_NUMBERS_def)
  have d2: "detect_archive_type ?w ''pkg.tar.zst'' = (Inr (Some ZST), ?w)"
    by (simp add: detect_archive_type_def archive_type_from_extension_def truthy_def suffix_to_prefix ZST_def)
  have d3: "detect_archive_type ?w ''pkg.zip'' = (Inr (Some ZIP), ?w)"
    by (simp add: detect_archive_type_def archive_type_from_extension_def truthy_def suffix_to_prefix ZIP_def)
  have d4: "detect_archive_type ?w ''pkg.tar.gz'' = (Inr (Some GZ), ?w)"
    by (simp add: detect_archive_type_def archive_type_from_extension_def truthy_def suffix_to_prefix GZ_def)
  have e: "emit es (emit es' w) = emit (es' @ es) w" for es es' w
    by (simp add: emit_def)
  have ne: "ZST \<noteq> ZIP" "GZ \<noteq> ZST" "GZ \<noteq> ZIP"
    by (simp_all add: GZ_def ZST_def ZIP_def)
  have r1: "open_archive ?w ''payload'' =
     (Inr (TarFile ''payload'' ''r''),
      emit [FileOpen ''payload'', FileRead ''payload'' 4, FileClose ''payload'',
            Tarfile_open ''payload'' ''r''] ?w)"
    using open_archive_dispatch [OF d1] by (auto simp: q e)
  have r2: "open_archive ?w ''pkg.tar.zst'' =
     (Inr (ZstdTarFile ''pkg.tar.zst'' ''r''),
      emit [ZstdFile_new ''pkg.tar.zst'' ''r'' None, TarFile_init ''pkg.tar.zst'' ''r''] ?w)"
    using open_archive_dispatch [OF d2] ne by (auto simp: q)
  have r3: "open_archive ?w ''pkg.zip'' =
     (Inr (ZipFile ''pkg.zip'' ''r''), emit [ZipFile_new ''pkg.zip'' ''r''] ?w)"
    using open_archive_dispatch [OF d3] ne by (auto simp: q)
  have r4: "open_archive ?w ''pkg.tar.gz'' =
     (Inr (TarFile ''pkg.tar.gz'' ''r''), emit [Tarfile_open ''pkg.tar.gz'' ''r''] ?w)"
    using open_archive_dispatch [OF d4] ne by (auto simp: q)
  show ?thesis
    by (simp only: r1 r2 r3 r4 simp_thms)
qed

section \<open>Closing the zstd stream\<close>

text \<open>
  Claim C4, as stated, fails when both closes raise: \<^verbatim>\<open>super().close()\<close> raises
  \<^verbatim>\<open>TarError\<close>, the \<^verbatim>\<open>finally\<close> clause still calls \<^verbatim>\<open>self.zstd_file.close()\<close>, that call
  raises \<^verbatim>\<open>ZstdError\<close>, and \<^verbatim>\<open>ZstdError\<close>, not the tar-level exception, is what leaves
  \<^verbatim>\<open>ZstdTarFile.close\<close>.
\<close>

theorem close_error_replaced_counterexample:
  "TarFile_close_raises (close_fails (Some TarError) (Some ZstdError)) ''pkg.tar.zst'' = Some TarError \<and>
   trace (snd (ZstdTarFile_close (close_fails (Some TarError) (Some ZstdError)) ''pkg.tar.zst'')) =
     [TarFile_close ''pkg.tar.zst'', ZstdFile_close ''pkg.tar.zst''] \<and>
   fst (ZstdTarFile_close (close_fails (Some TarError) (Some ZstdError)) ''pkg.tar.zst'') = Inl ZstdError \<and>
   fst (ZstdTarFile_close (close_fails (Some TarError) (Some ZstdError)) ''pkg.tar.zst'') \<noteq> Inl TarError"
  by (simp add: ZstdTarFile_close_def close_fails_def quiet_world_def emit_def)

text \<open>
  Claim C4, amended. When the zstd stream has been opened and constructing the tar reader
  raises, \<^verbatim>\<open>ZstdTarFile.__init__\<close> calls the stream's \<^verbatim>\<open>close\<close> as its last action and then
  raises. \<^verbatim>\<open>ZstdTarFile.close\<close> always calls the tar reader's \<^verbatim>\<open>close\<close> first and the
  stream's \<^verbatim>\<open>close\<close> second, also when the first raises. In both, the exception that
  propagates is the original one provided the stream's \<^verbatim>\<open>close\<close> returns; when the stream's
  \<^verbatim>\<open>close\<close> raises, its exception is the one that propagates.
\<close>

theorem zstd_stream_always_closed:
  "(pyzstd_import_raises w = None \<and> ZstdFile_raises w name mode = None \<and>
    TarFile_init_raises w name mode = Some e \<longrightarrow>
      (\<exists>opt. trace (snd (ZstdTarFile_init w name mode level)) =
         trace w @ [ZstdFile_new name mode opt, TarFile_init name mode, ZstdFile_close name]) \<and>
      fst (ZstdTarFile_init w name mode level) =
        Inl (case ZstdFile_close_raises w name of None \<Rightarrow> e | Some e' \<Rightarrow> e')) \<and>
   trace (snd (ZstdTarFile_close w name)) = trace w @ [TarFile_close name, ZstdFile_close name] \<and>
   (ZstdFile_close_raises w name = None \<longrightarrow>
      fst (ZstdTarFile_close w name) =
        (case TarFile_close_raises w name of None \<Rightarrow> Inr () | Some e1 \<Rightarrow> Inl e1)) \<and>
   (ZstdFile_close_raises w name = Some e2 \<longrightarrow> fst (ZstdTarFile_close w name) = Inl e2)"
proof (intro conjI impI)
  assume a: "pyzstd_import_raises w = None \<and> ZstdFile_raises w name mode = None \<and>
    TarFile_init_raises w name mode = Some e"
  then show "\<exists>opt. trace (snd (ZstdTarFile_init w name mode level)) =
         trace w @ [ZstdFile_new name mode opt, TarFile_init name mode, ZstdFile_close name]"
    by (cases "ZstdFile_close_raises w name") (simp_all add: ZstdTarFile_init_def emit_def Let_def)
  from a show "fst (ZstdTarFile_init w name mode level) =
        Inl (case ZstdFile_close_raises w name of None \<Rightarrow> e | Some e' \<Rightarrow> e')"
    by (cases "ZstdFile_close_raises w name") (simp_all add: ZstdTarFile_init_def emit_def Let_def)
next
  show "trace (snd (ZstdTarFile_close w name)) = trace w @ [TarFile_close name, ZstdFile_close name]"
    by (cases "ZstdFile_close_raises w name"; cases "TarFile_close_raises w name")
      (simp_all add: ZstdTarFile_close_def emit_def)
next
  assume "ZstdFile_close_raises w name = None"
  then show "fst (ZstdTarFile_close w name) =
        (case TarFile_close_raises w name of None \<Rightarrow> Inr () | Some e1 \<Rightarrow> Inl e1)"
    by (cases "TarFile_close_raises w name") (simp_all add: ZstdTarFile_close_def)
next
  assume "ZstdFile_close_raises w name = Some e2"
  then show "fst (ZstdTarFile_close w name) = Inl e2"
    by (simp add: ZstdTarFile_close_def)
qed

text \<open>
  A tar constructor that raises \<^verbatim>\<open>TarError\<close>: the stream is closed last and \<^verbatim>\<open>TarError\<close>
  propagates. A tar-level \<^verbatim>\<open>close\<close> that raises \<^verbatim>\<open>TarError\<close> while the stream's \<^verbatim>\<open>close\<close>
  returns: both closes are called in order and \<^verbatim>\<open>TarError\<close> propagates.
\<close>

theorem zstd_stream_always_closed_witness:
  "TarFile_init_raises tar_init_fails ''pkg.tar.zst'' ''r'' = Some TarError \<and>
   fst (ZstdTarFile_init tar_init_fails ''pkg.tar.zst'' ''r'' 4) = Inl TarError \<and>
   trace (snd (ZstdTarFile_init tar_init_fails ''pkg.tar.zst'' ''r'' 4)) =
     [ZstdFile_new ''pkg.tar.zst'' ''r'' None, TarFile_init ''pkg.tar.zst'' ''r'',
      ZstdFile_close ''pkg.tar.zst''] \<and>
   TarFile_close_raises (close_fails (Some TarError) None) ''pkg.tar.zst'' = Some TarError \<and>
   fst (ZstdTarFile_close (close_fails (Some TarError) None) ''pkg.tar.zst'') = Inl TarError \<and>
   trace (snd (ZstdTarFile_close (close_fails (Some TarError) None) ''pkg.tar.zst'')) =
     [TarFile_close ''pkg.tar.zst'', ZstdFile_close ''pkg.tar.zst'']"
proof -
  have i: "pyzstd_import_raises tar_init_fails = None \<and>
      ZstdFile_raises tar_init_fails ''pkg.tar.zst'' ''r'' = None \<and>
      TarFile_init_raises tar_init_fails ''pkg.tar.zst'' ''r'' = Some TarError"
    "ZstdFile_close_raises tar_init_fails ''pkg.tar.zst'' = None"
    "trace tar_init_fails = []"
    by (simp_all add: tar_init_fails_def quiet_world_def)
  have c: "ZstdFile_close_raises (close_fails (Some TarError) None) ''pkg.tar.zst'' = None"
    "TarFile_close_raises (close_fails (Some TarError) None) ''pkg.tar.zst'' = Some TarError"
    "trace (close_fails (Some TarError) None) = []"
    by (simp_all add: close_fails_def quiet_world_def)
  note a = zstd_stream_always_closed [of tar_init_fails "''pkg.tar.zst''" "''r''" TarError 4, THEN conjunct1, rule_format, OF i(1)]
  note b = zstd_stream_always_closed [of "close_fails (Some TarError) None" "''pkg.tar.zst''" _ _ _ _ , THEN conjunct2]
  have t: "trace (snd (ZstdTarFile_init tar_init_fails ''pkg.tar.zst'' ''r'' 4)) =
     [ZstdFile_new ''pkg.tar.zst'' ''r'' None, TarFile_init ''pkg.tar.zst'' ''r'',
      ZstdFile_close ''pkg.tar.zst'']"
    by (simp add: ZstdTarFile_init_def tar_init_fails_def quiet_world_def emit_def)
  show ?thesis
    using a b t by (simp add: i c)
qed

section \<open>Properties of \<^verbatim>\<open>split_tarname\<close>\<close>

lemma str_split_not_Nil: "str_split c s \<noteq> []"
  by (induction s) (auto split: list.splits)

lemma length_str_split: "length (str_split c s) = Suc (count_list s c)"
proof (induction s)
  case Nil
  then show ?case by simp
next
  case (Cons x xs)
  then show ?case
    using str_split_not_Nil [of c xs] by (auto split: list.splits)
qed

lemma str_split_single: "length (str_split c s) = 1 \<longleftrightarrow> c \<notin> set s"
  by (simp add: length_str_split count_list_0_iff)

lemma update_last: "xs \<noteq> [] \<Longrightarrow> xs[length xs - Suc 0 := v] = butlast xs @ [v]"
  by (induction xs rule: rev_induct) (simp_all add: list_update_append)

lemma drop_last_two:
  assumes "2 \<le> length xs"
  shows "drop (length xs - 2) xs = [xs ! (length xs - 2), last xs]"
proof -
  obtain ys a b where xs: "xs = ys @ [a, b]"
  proof -
    from assms have "xs \<noteq> []" by auto
    then obtain zs b where 1: "xs = zs @ [b]" by (metis rev_exhaust)
    with assms have "zs \<noteq> []" by auto
    then obtain ys a where 2: "zs = ys @ [a]" by (metis rev_exhaust)
    from 1 2 have "xs = ys @ [a, b]" by simp
    then show ?thesis by (rule that)
  qed
  show ?thesis by (simp add: xs nth_append)
qed

lemma merge_interior:
  assumes "4 < length xs"
  shows "slice_assign 1 (- 2) [str_join sep (slice 1 (- 2) xs)] xs =
         [hd xs, str_join sep (take (length xs - 3) (tl xs)), xs ! (length xs - 2), last xs]"
proof -
  have i: "slice_index 1 (length xs) = 1" "slice_index (- 2) (length xs) = length xs - 2"
    using assms by (simp_all add: slice_index_def)
  have s: "slice 1 (- 2) xs = take (length xs - 3) (tl xs)"
    by (simp add: slice_def i drop_Suc Let_def)
  have t: "take (Suc 0) xs = [hd xs]"
    using assms by (cases xs) simp_all
  have m: "max (Suc 0) (length xs - 2) = length xs - 2"
    using assms by simp
  have d: "drop (length xs - 2) xs = [xs ! (length xs - 2), last xs]"
    using assms by (intro drop_last_two) simp
  show ?thesis
    by (simp add: slice_assign_def Let_def i s t m d)
qed

lemma split_tarname_eq:
  assumes "os_path_split pathname = (dir, filename)"
    and "raw = str_split CHR ''-'' filename"
    and "exts = str_split CHR ''.'' (last raw)"
    and "fileparts = butlast raw @ [hd exts]"
    and "ext = str_join ''.'' ([] # tl exts)"
  shows "split_tarname pathname =
          (if 4 < length fileparts
           then Inr (dir, [hd fileparts, str_join ''-'' (take (length fileparts - 3) (tl fileparts)),
                           fileparts ! (length fileparts - 2), last fileparts], ext)
           else if length fileparts < 4 then Inl (AutobuildError (incompatible_name filename))
           else Inr (dir, fileparts, ext))"
proof -
  have raw: "raw \<noteq> []" using assms(2) by (simp add: str_split_not_Nil)
  then obtain lastpart r where rv: "rev raw = lastpart # r" by (cases "rev raw") simp_all
  then have lp: "lastpart = last raw" using raw by (metis last_rev list.sel(1) rev_rev_ident hd_rev)
  have "exts \<noteq> []" using assms(3) by (simp add: str_split_not_Nil)
  then obtain ext0 extrest where ex: "exts = ext0 # extrest" by (cases exts) simp_all
  have ex': "str_split CHR ''.'' lastpart = ext0 # extrest"
    using ex assms(3) lp by simp
  have fp: "raw[length raw - Suc 0 := ext0] = fileparts"
    using raw assms(4) ex by (simp add: update_last)
  have e: "str_join ''.'' ([] # extrest) = ext" using assms(5) ex by simp
  have m: "4 < length fileparts \<Longrightarrow>
      slice_assign 1 (- 2) [str_join ''-'' (slice 1 (- 2) fileparts)] fileparts =
      [hd fileparts, str_join ''-'' (take (length fileparts - 3) (tl fileparts)),
       fileparts ! (length fileparts - 2), last fileparts]"
    by (rule merge_interior)
  have "split_tarname pathname =
      (let fileparts' = (if 4 < length fileparts
             then slice_assign 1 (- 2) [str_join ''-'' (slice 1 (- 2) fileparts)] fileparts
             else fileparts)
       in if length fileparts' < 4 then Inl (AutobuildError (incompatible_name filename))
          else Inr (dir, fileparts', ext))"
    by (simp add: split_tarname_def assms(1) assms(2) [symmetric] rv ex' fp e Let_def)
  then show ?thesis
    using m by (simp add: Let_def)
qed

lemma ext_join: "str_join ''.'' ([] # xs) = (if xs = [] then [] else CHR ''.'' # str_join ''.'' xs)"
  by (cases xs) simp_all

lemma tl_str_split_Nil: "tl (str_split c s) = [] \<longleftrightarrow> c \<notin> set s"
proof -
  have "tl (str_split c s) = [] \<longleftrightarrow> length (str_split c s) = 1"
    using str_split_not_Nil [of c s] by (cases "str_split c s") simp_all
  then show ?thesis by (simp only: str_split_single)
qed

lemma interior_decomposition:
  assumes "4 < length xs"
  shows "xs = hd xs # take (length xs - 3) (tl xs) @ [xs ! (length xs - 2), last xs]"
proof -
  from assms have "xs \<noteq> []" by auto
  then obtain zs b where 1: "xs = zs @ [b]" by (metis rev_exhaust)
  with assms have "zs \<noteq> []" by auto
  then obtain us a where 2: "zs = us @ [a]" by (metis rev_exhaust)
  with 1 assms have "us \<noteq> []" by auto
  then obtain x ys where 3: "us = x # ys" by (cases us) auto
  have xs: "xs = x # ys @ [a, b]" by (simp add: 1 2 3)
  have l: "length xs - 3 = length ys" "length xs - 2 = Suc (length ys)"
    by (simp_all add: xs)
  show ?thesis
    unfolding l by (simp add: xs nth_append)
qed

text \<open>
  Claim C7. The pathname of the docstring splits into the directory \<^verbatim>\<open>/some/path\<close>, the four
  components \<^verbatim>\<open>boost\<close>, \<^verbatim>\<open>1.39.0\<close>, \<^verbatim>\<open>darwin\<close>, \<^verbatim>\<open>20100222a\<close> and the extension \<^verbatim>\<open>.tar.bz2\<close>: the
  dots of the version stay in the second component and the two-part extension is whole.
\<close>

theorem split_tarname_boost_example:
  "split_tarname ''/some/path/boost-1.39.0-darwin-20100222a.tar.bz2'' =
     Inr (''/some/path'', [''boost'', ''1.39.0'', ''darwin'', ''20100222a''], ''.tar.bz2'')"
  by code_simp

text \<open>
  Claim C5. Let the components be the dash-separated pieces of the file name, the last one
  cut at its first dot. When there are more than 4, \<^verbatim>\<open>split_tarname\<close> returns exactly four:
  the first, the dash-joined run of all components between the first and the last two, and
  the last two; the second conjunct says that this run is all of the interior. In
  particular \<^verbatim>\<open>mypkg-2009-08-30-darwin-20100222a.tar.gz\<close> gives \<^verbatim>\<open>mypkg\<close>, \<^verbatim>\<open>2009-08-30\<close>,
  \<^verbatim>\<open>darwin\<close>, \<^verbatim>\<open>20100222a\<close> and \<^verbatim>\<open>.tar.gz\<close>.
\<close>

theorem split_tarname_merges_interior:
  "(os_path_split pathname = (dir, filename) \<and>
    raw = str_split CHR ''-'' filename \<and>
    fileparts = butlast raw @ [hd (str_split CHR ''.'' (last raw))] \<and>
    4 < length fileparts \<longrightarrow>
      split_tarname pathname =
        Inr (dir,
             [hd fileparts,
              str_join ''-'' (take (length fileparts - 3) (tl fileparts)),
              fileparts ! (length fileparts - 2),
              last fileparts],
             str_join ''.'' ([] # tl (str_split CHR ''.'' (last raw)))) \<and>
      fileparts = hd fileparts # take (length fileparts - 3) (tl fileparts) @
                  [fileparts ! (length fileparts - 2), last fileparts]) \<and>
   split_tarname ''mypkg-2009-08-30-darwin-20100222a.tar.gz'' =
     Inr ('''', [''mypkg'', ''2009-08-30'', ''darwin'', ''20100222a''], ''.tar.gz'')"
proof (intro conjI impI)
  assume a: "os_path_split pathname = (dir, filename) \<and>
    raw = str_split CHR ''-'' filename \<and>
    fileparts = butlast raw @ [hd (str_split CHR ''.'' (last raw))] \<and>
    4 < length fileparts"
  show "split_tarname pathname =
        Inr (dir,
             [hd fileparts,
              str_join ''-'' (take (length fileparts - 3) (tl fileparts)),
              fileparts ! (length fileparts - 2),
              last fileparts],
             str_join ''.'' ([] # tl (str_split CHR ''.'' (last raw))))"
  proof -
    from a have o: "os_path_split pathname = (dir, filename)"
      and r: "raw = str_split CHR ''-'' filename"
      and f: "fileparts = butlast raw @ [hd (str_split CHR ''.'' (last raw))]"
      and n: "4 < length fileparts"
      by blast+
    show ?thesis
      by (simp only: split_tarname_eq [OF o r refl f refl] n if_True)
  qed
  from a have "4 < length fileparts" by blast
  then show "fileparts = hd fileparts # take (length fileparts - 3) (tl fileparts) @
                  [fileparts ! (length fileparts - 2), last fileparts]"
    by (rule interior_decomposition)
next
  show "split_tarname ''mypkg-2009-08-30-darwin-20100222a.tar.gz'' =
     Inr ('''', [''mypkg'', ''2009-08-30'', ''darwin'', ''20100222a''], ''.tar.gz'')"
    by code_simp
qed

text \<open>
  A pathname with a directory and the version \<^verbatim>\<open>1.2-alpha\<close>: five dash-separated pieces,
  merged to four components.
\<close>

theorem split_tarname_merges_interior_witness:
  "os_path_split ''/pkgs/tool-1.2-alpha-linux-42.tar.zst'' = (''/pkgs'', ''tool-1.2-alpha-linux-42.tar.zst'') \<and>
   str_split CHR ''-'' ''tool-1.2-alpha-linux-42.tar.zst'' =
     [''tool'', ''1.2'', ''alpha'', ''linux'', ''42.tar.zst''] \<and>
   split_tarname ''/pkgs/tool-1.2-alpha-linux-42.tar.zst'' =
     Inr (''/pkgs'', [''tool'', ''1.2-alpha'', ''linux'', ''42''], ''.tar.zst'')"
proof -
  have o: "os_path_split ''/pkgs/tool-1.2-alpha-linux-42.tar.zst'' = (''/pkgs'', ''tool-1.2-alpha-linux-42.tar.zst'')"
    by code_simp
  have r: "str_split CHR ''-'' ''tool-1.2-alpha-linux-42.tar.zst'' =
     [''tool'', ''1.2'', ''alpha'', ''linux'', ''42.tar.zst'']"
    by code_simp
  have e: "str_split CHR ''.'' ''42.tar.zst'' = [''42'', ''tar'', ''zst'']"
    by code_simp
  note i = split_tarname_merges_interior [of "''/pkgs/tool-1.2-alpha-linux-42.tar.zst''" "''/pkgs''" "''tool-1.2-alpha-linux-42.tar.zst''"
      "[''tool'', ''1.2'', ''alpha'', ''linux'', ''42.tar.zst'']" "[''tool'', ''1.2'', ''alpha'', ''linux'', ''42'']",
      THEN conjunct1, rule_format]
  have "split_tarname ''/pkgs/tool-1.2-alpha-linux-42.tar.zst'' =
     Inr (''/pkgs'', [''tool'', ''1.2-alpha'', ''linux'', ''42''], ''.tar.zst'')"
    using i by (simp add: o r e)
  then show ?thesis using o r by simp
qed

text \<open>
  Claim C6, as stated, fails on the naming of the component count: for \<^verbatim>\<open>badname.zip\<close>,
  which has one component, the error is an \<^verbatim>\<open>AutobuildError\<close> whose message holds the file
  name and no digit at all.
\<close>

theorem parse_error_without_count_counterexample:
  "split_tarname ''badname.zip'' =
     Inl (AutobuildError ''Incompatible archive name 'badname.zip' lacks some components'') \<and>
   length (str_split CHR ''-'' ''badname.zip'') = 1 \<and>
   set ''Incompatible archive name 'badname.zip' lacks some components'' \<inter> set ''0123456789'' = {}"
proof (intro conjI)
  show "split_tarname ''badname.zip'' =
     Inl (AutobuildError ''Incompatible archive name 'badname.zip' lacks some components'')"
    by code_simp
  show "length (str_split CHR ''-'' ''badname.zip'') = 1"
    by code_simp
  show "set ''Incompatible archive name 'badname.zip' lacks some components'' \<inter> set ''0123456789'' = {}"
    by simp
qed

text \<open>
  Claim C6, amended. Let \<open>n\<close> be the number of dash-separated pieces of the file name;
  after normalization 4 components remain when \<open>n\<close> exceeds 4 and \<open>n\<close> otherwise.
  \<^verbatim>\<open>split_tarname\<close> raises exactly when fewer than 4 remain, and what it raises is an
  \<^verbatim>\<open>AutobuildError\<close> whose message names the file name (without its directory), not the
  component count. In particular \<^verbatim>\<open>badname.zip\<close> raises it.
\<close>

theorem split_tarname_fails_iff_short:
  "(os_path_split pathname = (dir, filename) \<and> n = length (str_split CHR ''-'' filename) \<longrightarrow>
      (split_tarname pathname = Inl e \<longleftrightarrow>
         (if 4 < n then 4 else n) < 4 \<and>
         e = AutobuildError (''Incompatible archive name '' @ [CHR 0x27] @ filename @ [CHR 0x27] @
                             '' lacks some components''))) \<and>
   split_tarname ''badname.zip'' =
     Inl (AutobuildError ''Incompatible archive name 'badname.zip' lacks some components'')"
proof (intro conjI impI)
  assume a: "os_path_split pathname = (dir, filename) \<and> n = length (str_split CHR ''-'' filename)"
  define raw where "raw = str_split CHR ''-'' filename"
  define fileparts where "fileparts = butlast raw @ [hd (str_split CHR ''.'' (last raw))]"
  have l: "length fileparts = n"
    using a str_split_not_Nil [of "CHR ''-''" filename] by (simp add: fileparts_def raw_def)
  have o: "os_path_split pathname = (dir, filename)" using a by simp
  note eq = split_tarname_eq [OF o raw_def refl fileparts_def refl]
  show "split_tarname pathname = Inl e \<longleftrightarrow>
         (if 4 < n then 4 else n) < 4 \<and>
         e = AutobuildError (''Incompatible archive name '' @ [CHR 0x27] @ filename @ [CHR 0x27] @
                             '' lacks some components'')"
    by (auto simp: eq l incompatible_name_def)
next
  show "split_tarname ''badname.zip'' =
     Inl (AutobuildError ''Incompatible archive name 'badname.zip' lacks some components'')"
    by code_simp
qed

text \<open>A pathname with a directory and three components raises, naming the bare file name.\<close>

theorem split_tarname_fails_iff_short_witness:
  "os_path_split ''/tmp/a-b-c.zip'' = (''/tmp'', ''a-b-c.zip'') \<and>
   length (str_split CHR ''-'' ''a-b-c.zip'') = 3 \<and>
   split_tarname ''/tmp/a-b-c.zip'' =
     Inl (AutobuildError ''Incompatible archive name 'a-b-c.zip' lacks some components'')"
proof -
  have o: "os_path_split ''/tmp/a-b-c.zip'' = (''/tmp'', ''a-b-c.zip'')"
    by code_simp
  have r: "length (str_split CHR ''-'' ''a-b-c.zip'') = 3"
    by code_simp
  note i = split_tarname_fails_iff_short [of "''/tmp/a-b-c.zip''" "''/tmp''" "''a-b-c.zip''" 3, THEN conjunct1, rule_format]
  have "split_tarname ''/tmp/a-b-c.zip'' =
     Inl (AutobuildError ''Incompatible archive name 'a-b-c.zip' lacks some components'')"
    using i by (simp add: o r)
  then show ?thesis using o r by simp
qed

text \<open>
  Claim C8, as stated, fails on the extension: a name of four components without any dot
  in the last one splits with the empty extension, which does not start with a dot.
\<close>

theorem empty_extension_counterexample:
  "split_tarname ''boost-1.39.0-darwin-20100222a'' =
     Inr ('''', [''boost'', ''1.39.0'', ''darwin'', ''20100222a''], '''') \<and>
   \<not> prefix ''.'' ''''"
proof (intro conjI)
  show "split_tarname ''boost-1.39.0-darwin-20100222a'' =
     Inr ('''', [''boost'', ''1.39.0'', ''darwin'', ''20100222a''], '''')"
    by code_simp
  show "\<not> prefix ''.'' ''''" by simp
qed

text \<open>
  Claim C8, amended. Whenever \<^verbatim>\<open>split_tarname\<close> returns, the components are exactly 4 strings
  and the extension is empty or starts with a dot; it is empty exactly when the last
  dash-separated piece of the file name contains no dot.
\<close>

theorem split_tarname_result_shape:
  "split_tarname pathname = Inr (dir, fileparts, ext) \<Longrightarrow>
     length fileparts = 4 \<and>
     (ext = [] \<or> prefix ''.'' ext) \<and>
     (ext = [] \<longleftrightarrow> CHR ''.'' \<notin> set (last (str_split CHR ''-'' (snd (os_path_split pathname)))))"
proof -
  assume r: "split_tarname pathname = Inr (dir, fileparts, ext)"
  obtain d filename where o: "os_path_split pathname = (d, filename)" by (cases "os_path_split pathname")
  define raw where "raw = str_split CHR ''-'' filename"
  define exts where "exts = str_split CHR ''.'' (last raw)"
  define fp where "fp = butlast raw @ [hd exts]"
  define ex where "ex = str_join ''.'' ([] # tl exts)"
  note eq = split_tarname_eq [OF o raw_def exts_def fp_def ex_def]
  have "ext = ex" and len: "length fileparts = 4"
    using r unfolding eq by (auto split: if_splits)
  then have e: "ext = (if tl exts = [] then [] else CHR ''.'' # str_join ''.'' (tl exts))"
    by (simp add: ex_def ext_join)
  have t: "tl exts = [] \<longleftrightarrow> CHR ''.'' \<notin> set (last raw)"
    unfolding exts_def by (rule tl_str_split_Nil)
  have l: "last (str_split CHR ''-'' (snd (os_path_split pathname))) = last raw"
    by (simp add: o raw_def)
  show ?thesis
    unfolding l using len e t by auto
qed

text \<open>A name with a directory, four components and a two-part extension.\<close>

theorem split_tarname_result_shape_witness:
  "split_tarname ''/opt/zlib-1.2.11-linux-5.tar.gz'' =
     Inr (''/opt'', [''zlib'', ''1.2.11'', ''linux'', ''5''], ''.tar.gz'') \<and>
   length [''zlib'', ''1.2.11'', ''linux'', ''5''] = 4 \<and>
   prefix ''.'' ''.tar.gz''"
proof -
  have r: "split_tarname ''/opt/zlib-1.2.11-linux-5.tar.gz'' =
     Inr (''/opt'', [''zlib'', ''1.2.11'', ''linux'', ''5''], ''.tar.gz'')"
    by code_simp
  show ?thesis
    using split_tarname_result_shape [OF r] r by simp
qed

end
